theory Spec2Isabelle
  imports Main "HOL-Library.Word" "HOL-Library.Sublist"
begin

unbundle bit_operations_syntax

section \<open>Capability bitmasks (plugin\_sofar.py, lines 22--48)\<close>

text \<open>
  The plugin characterises an inverter by a Python integer used as a bit set. Python
  integers are unbounded and \<open>&\<close>, \<open>|\<close> act on their two's complement reading, which is
  what \<open>AND\<close> and \<open>OR\<close> on \<^typ>\<open>int\<close> do.
\<close>

definition GEN :: int where "GEN = 0x0001"
definition GEN2 :: int where "GEN2 = 0x0002"
definition GEN3 :: int where "GEN3 = 0x0004"
definition GEN4 :: int where "GEN4 = 0x0008"
definition ALL_GEN_GROUP :: int where "ALL_GEN_GROUP = GEN2 OR GEN3 OR GEN4 OR GEN"

definition X1 :: int where "X1 = 0x0100"
definition X3 :: int where "X3 = 0x0200"
definition ALL_X_GROUP :: int where "ALL_X_GROUP = X1 OR X3"

definition PV :: int where "PV = 0x0400"
definition AC :: int where "AC = 0x0800"
definition HYBRID :: int where "HYBRID = 0x1000"
definition MIC :: int where "MIC = 0x2000"
definition ALL_TYPE_GROUP :: int where "ALL_TYPE_GROUP = PV OR AC OR HYBRID OR MIC"

definition EPS :: int where "EPS = 0x8000"
definition ALL_EPS_GROUP :: int where "ALL_EPS_GROUP = EPS"

definition DCB :: int where "DCB = 0x10000"
definition ALL_DCB_GROUP :: int where "ALL_DCB_GROUP = DCB"

definition PM :: int where "PM = 0x20000"
definition ALL_PM_GROUP :: int where "ALL_PM_GROUP = PM"

definition ALLDEFAULT :: int where "ALLDEFAULT = 0"

text \<open>The six groups of the source, in the order the function tests them.\<close>

definition all_groups :: "int list" where
  "all_groups = [ALL_GEN_GROUP, ALL_X_GROUP, ALL_TYPE_GROUP, ALL_EPS_GROUP,
                 ALL_DCB_GROUP, ALL_PM_GROUP]"

section \<open>matchInverterWithMask (lines 51--63)\<close>

text \<open>
  \<open>str.startswith\<close>: the first \<open>len(start)\<close> characters of the string are \<open>start\<close>.
  Characters are compared for equality, so the test is case-sensitive.
\<close>

definition startswith :: "string \<Rightarrow> string \<Rightarrow> bool" where
  "startswith s start = (take (length start) s = start)"

text \<open>
  Lines 61--62, the loop \<open>for start in blacklist: if serialnumber.startswith(start):
  blacklisted = True\<close>, with the loop variable \<open>blacklisted\<close> as accumulator. The loop
  has no \<open>break\<close>: it visits every entry.
\<close>

fun blacklist_loop :: "string \<Rightarrow> string list \<Rightarrow> bool \<Rightarrow> bool" where
  "blacklist_loop serialnumber [] blacklisted = blacklisted"
| "blacklist_loop serialnumber (start # rest) blacklisted =
     blacklist_loop serialnumber rest
       (if startswith serialnumber start then True else blacklisted)"

text \<open>
  Lines 59--62. The parameter \<open>blacklist\<close> is \<open>None\<close> (the default) or a list of
  strings; \<open>if blacklist:\<close> is false for \<open>None\<close> and for the empty list.
\<close>

definition is_blacklisted :: "string \<Rightarrow> string list option \<Rightarrow> bool" where
  "is_blacklisted serialnumber blacklist =
     (case blacklist of
        None \<Rightarrow> False
      | Some bl \<Rightarrow> if bl \<noteq> [] then blacklist_loop serialnumber bl False else False)"

text \<open>
  One line of lines 53--58, for the group mask \<open>g\<close>. Python's \<open>&\<close> associates to the
  left and binds tighter than \<open>==\<close> and \<open>!=\<close>.
\<close>

definition group_match :: "int \<Rightarrow> int \<Rightarrow> int \<Rightarrow> bool" where
  "group_match inverterspec entitymask g =
     (((inverterspec AND entitymask) AND g) \<noteq> 0 \<or> entitymask AND g = 0)"

definition matchInverterWithMask :: "int \<Rightarrow> int \<Rightarrow> string \<Rightarrow> string list option \<Rightarrow> bool" where
  "matchInverterWithMask inverterspec entitymask serialnumber blacklist =
     (let genmatch = group_match inverterspec entitymask ALL_GEN_GROUP;
          xmatch   = group_match inverterspec entitymask ALL_X_GROUP;
          hybmatch = group_match inverterspec entitymask ALL_TYPE_GROUP;
          epsmatch = group_match inverterspec entitymask ALL_EPS_GROUP;
          dcbmatch = group_match inverterspec entitymask ALL_DCB_GROUP;
          pmmatch  = group_match inverterspec entitymask ALL_PM_GROUP
      in (genmatch \<and> xmatch \<and> hybmatch \<and> epsmatch \<and> dcbmatch \<and> pmmatch)
         \<and> \<not> is_blacklisted serialnumber blacklist)"

text \<open>The default value of the parameter \<open>serialnumber\<close>.\<close>

definition default_serialnumber :: string where
  "default_serialnumber = ''not relevant''"

text \<open>The prefixes a blacklist argument holds: none for \<open>None\<close>.\<close>

definition blacklist_entries :: "string list option \<Rightarrow> string list" where
  "blacklist_entries blacklist = (case blacklist of None \<Rightarrow> [] | Some bl \<Rightarrow> bl)"

section \<open>The same function over untyped Python values\<close>

text \<open>
  Python checks no types at the call. To state that the function never raises on the
  inputs it is meant for, the body is written a second time over a small universe of
  Python values, with every operation that can raise returning an error: \<open>&\<close> raises
  TypeError unless both operands are integers, iterating \<open>None\<close> or an integer raises
  TypeError, \<open>.startswith\<close> is an attribute of strings only (AttributeError otherwise)
  and wants a string argument (TypeError otherwise). Iterating a string yields its
  characters as one-character strings.
\<close>

datatype pyerr = TypeError | AttributeError | KeyError string | ValueError
  | UnicodeDecodeError | UnicodeEncodeError

datatype pyval = PNone | PInt int | PStr string | PList "pyval list"

definition py_bind :: "pyerr + 'a \<Rightarrow> ('a \<Rightarrow> pyerr + 'b) \<Rightarrow> pyerr + 'b" where
  "py_bind m f = (case m of Inl e \<Rightarrow> Inl e | Inr x \<Rightarrow> f x)"

fun py_and :: "pyval \<Rightarrow> pyval \<Rightarrow> pyerr + pyval" where
  "py_and (PInt a) (PInt b) = Inr (PInt (a AND b))"
| "py_and _ _ = Inl TypeError"

fun truthy :: "pyval \<Rightarrow> bool" where
  "truthy PNone = False"
| "truthy (PInt n) = (n \<noteq> 0)"
| "truthy (PStr s) = (s \<noteq> [])"
| "truthy (PList xs) = (xs \<noteq> [])"

fun py_iter :: "pyval \<Rightarrow> pyerr + pyval list" where
  "py_iter (PList xs) = Inr xs"
| "py_iter (PStr s) = Inr (map (\<lambda>c. PStr [c]) s)"
| "py_iter (PInt n) = Inl TypeError"
| "py_iter PNone = Inl TypeError"

fun py_startswith :: "pyval \<Rightarrow> pyval \<Rightarrow> pyerr + bool" where
  "py_startswith (PStr s) (PStr start) = Inr (startswith s start)"
| "py_startswith (PStr s) _ = Inl TypeError"
| "py_startswith _ _ = Inl AttributeError"

text \<open>
  \<open>((inverterspec & entitymask & g) != 0) or (entitymask & g == 0)\<close>: the right operand of
  \<open>or\<close> is evaluated only when the left one is false.
\<close>

definition group_match_py :: "pyval \<Rightarrow> pyval \<Rightarrow> int \<Rightarrow> pyerr + bool" where
  "group_match_py inverterspec entitymask g =
     py_bind (py_and inverterspec entitymask) (\<lambda>a.
     py_bind (py_and a (PInt g)) (\<lambda>b.
       if b \<noteq> PInt 0 then Inr True
       else py_bind (py_and entitymask (PInt g)) (\<lambda>c. Inr (c = PInt 0))))"

fun blacklist_loop_py :: "pyval \<Rightarrow> pyval list \<Rightarrow> bool \<Rightarrow> pyerr + bool" where
  "blacklist_loop_py serialnumber [] blacklisted = Inr blacklisted"
| "blacklist_loop_py serialnumber (start # rest) blacklisted =
     py_bind (py_startswith serialnumber start) (\<lambda>r.
       blacklist_loop_py serialnumber rest (if r then True else blacklisted))"

definition is_blacklisted_py :: "pyval \<Rightarrow> pyval \<Rightarrow> pyerr + bool" where
  "is_blacklisted_py serialnumber blacklist =
     (if truthy blacklist
      then py_bind (py_iter blacklist) (\<lambda>items. blacklist_loop_py serialnumber items False)
      else Inr False)"

definition matchInverterWithMask_py :: "pyval \<Rightarrow> pyval \<Rightarrow> pyval \<Rightarrow> pyval \<Rightarrow> pyerr + bool" where
  "matchInverterWithMask_py inverterspec entitymask serialnumber blacklist =
     py_bind (group_match_py inverterspec entitymask ALL_GEN_GROUP) (\<lambda>genmatch.
     py_bind (group_match_py inverterspec entitymask ALL_X_GROUP) (\<lambda>xmatch.
     py_bind (group_match_py inverterspec entitymask ALL_TYPE_GROUP) (\<lambda>hybmatch.
     py_bind (group_match_py inverterspec entitymask ALL_EPS_GROUP) (\<lambda>epsmatch.
     py_bind (group_match_py inverterspec entitymask ALL_DCB_GROUP) (\<lambda>dcbmatch.
     py_bind (group_match_py inverterspec entitymask ALL_PM_GROUP) (\<lambda>pmmatch.
     py_bind (is_blacklisted_py serialnumber blacklist) (\<lambda>bl.
       Inr ((genmatch \<and> xmatch \<and> hybmatch \<and> epsmatch \<and> dcbmatch \<and> pmmatch)
            \<and> \<not> bl))))))))"

text \<open>The well-typed arguments as Python values.\<close>

definition py_of_blacklist :: "string list option \<Rightarrow> pyval" where
  "py_of_blacklist blacklist =
     (case blacklist of None \<Rightarrow> PNone | Some bl \<Rightarrow> PList (map PStr bl))"

section \<open>Reading the serial number (lines 69--85)\<close>

text \<open>
  The hub object, as far as the plugin touches it: its name (used for logging only),
  its Modbus unit address, the transport call \<open>read_holding_registers(unit, address,
  count)\<close> and the two attributes the plugin writes. An attribute that was never
  assigned is \<open>None\<close> here.

  The transport call either raises, or answers with an error response (\<open>isError()\<close>),
  or answers with a list of 16-bit registers. \<open>determineInverterType\<close> reads two
  distinct addresses once each, so a function of the address describes every behaviour
  of the transport during one run. Logging is not modelled.
\<close>

datatype read_result = ReadRaises | ReadIsError | ReadRegisters "16 word list"

record hub =
  hub_name :: string
  hub_modbus_addr :: int
  hub_read_holding_registers :: "int \<Rightarrow> int \<Rightarrow> int \<Rightarrow> read_result"
  hub_seriesnumber :: "string option"
  hub_invertertype :: "int option"

text \<open>
  \<open>BinaryPayloadDecoder.fromRegisters(registers, byteorder=Endian.Big)\<close> of the pymodbus
  library packs every register as two bytes, high byte first, in list order;
  \<open>decode_string(14)\<close> on the fresh decoder slices the first 14 bytes of that payload
  (fewer when the payload is shorter).
\<close>

definition fromRegisters :: "16 word list \<Rightarrow> 8 word list" where
  "fromRegisters registers = concat (map (\<lambda>x. [ucast (drop_bit 8 x), ucast x]) registers)"

definition decode_string :: "nat \<Rightarrow> 8 word list \<Rightarrow> 8 word list" where
  "decode_string n payload = take n payload"

text \<open>
  \<open>bytes.decode("ascii")\<close> and \<open>str(ba, "ascii")\<close> raise on a byte above 127;
  \<open>bytearray(res, "ascii")\<close> raises on a character above 127.
\<close>

definition decode_ascii :: "8 word list \<Rightarrow> pyerr + string" where
  "decode_ascii bs =
     (if list_all (\<lambda>b. b < 128) bs then Inr (map (\<lambda>b. char_of (unat b)) bs)
      else Inl UnicodeDecodeError)"

definition encode_ascii :: "string \<Rightarrow> pyerr + 8 word list" where
  "encode_ascii s =
     (if list_all (\<lambda>c. (of_char c :: nat) < 128) s then Inr (map (\<lambda>c. of_nat (of_char c)) s)
      else Inl UnicodeEncodeError)"

text \<open>The extended slice \<open>ba[start::2]\<close>: every second element from index \<open>start\<close>.\<close>

fun every_second :: "'a list \<Rightarrow> 'a list" where
  "every_second [] = []"
| "every_second [x] = [x]"
| "every_second (x # y # zs) = x # every_second zs"

definition getslice_step2 :: "nat \<Rightarrow> 'a list \<Rightarrow> 'a list" where
  "getslice_step2 start ba = every_second (drop start ba)"

text \<open>
  The assignment \<open>ba[start::2] = values\<close> on a bytearray. An empty right-hand side
  deletes the elements of the slice; otherwise the sizes must agree (ValueError if they
  do not) and the elements of the slice are overwritten in order.
\<close>

fun overwrite_every_second :: "'a list \<Rightarrow> 'a list \<Rightarrow> 'a list" where
  "overwrite_every_second [] vs = []"
| "overwrite_every_second (x # xs) [] = x # xs"
| "overwrite_every_second [x] (v # vs) = [v]"
| "overwrite_every_second (x # y # zs) (v # vs) = v # y # overwrite_every_second zs vs"

definition setslice_step2 :: "nat \<Rightarrow> 'a list \<Rightarrow> 'a list \<Rightarrow> pyerr + 'a list" where
  "setslice_step2 start ba vs =
     (if vs = [] then Inr (take start ba @ every_second (drop (Suc start) ba))
      else if length vs \<noteq> length (getslice_step2 start ba) then Inl ValueError
      else Inr (take start ba @ overwrite_every_second (drop start ba) vs))"

text \<open>
  Line 78, \<open>ba[0::2], ba[1::2] = ba[1::2], ba[0::2]\<close>: both right-hand slices are taken
  first, then the two assignments run left to right.
\<close>

definition swap_slices :: "'a list \<Rightarrow> pyerr + 'a list" where
  "swap_slices ba =
     (let odd_part = getslice_step2 1 ba; even_part = getslice_step2 0 ba
      in py_bind (setslice_step2 0 ba odd_part) (\<lambda>ba1. setslice_step2 1 ba1 even_part))"

text \<open>
  The bytearray between the two assignments of line 78: the odd-indexed elements written
  over the even-indexed ones.
\<close>

definition dup_odd :: "'a list \<Rightarrow> 'a list" where
  "dup_odd xs = overwrite_every_second xs (every_second (drop 1 xs))"

text \<open>Lines 77--79.\<close>

definition swap_text :: "string \<Rightarrow> pyerr + string" where
  "swap_text res = py_bind (encode_ascii res) (\<lambda>ba. py_bind (swap_slices ba) decode_ascii)"

text \<open>
  \<open>_read_serialnr\<close>. Every exception inside the \<open>try\<close> is caught and leaves \<open>res\<close> as it
  was when the exception was raised: \<open>None\<close> before line 75 has completed, the unswapped
  text if the swap raises. \<open>hub.seriesnumber\<close> is written on line 80 only, when nothing
  was raised. The result is \<open>res\<close>: \<open>None\<close> or a string, with the hub as left behind.
\<close>

definition read_serialnr :: "hub \<Rightarrow> int \<Rightarrow> bool \<Rightarrow> string option \<times> hub" where
  "read_serialnr hub address swapbytes =
     (case hub_read_holding_registers hub (hub_modbus_addr hub) address 7 of
        ReadRaises \<Rightarrow> (None, hub)
      | ReadIsError \<Rightarrow> (None, hub)
      | ReadRegisters registers \<Rightarrow>
          (case decode_ascii (decode_string 14 (fromRegisters registers)) of
             Inl e \<Rightarrow> (None, hub)
           | Inr res \<Rightarrow>
               if swapbytes
               then (case swap_text res of
                       Inl e \<Rightarrow> (Some res, hub)
                     | Inr res' \<Rightarrow> (Some res', hub\<lparr>hub_seriesnumber := Some res'\<rparr>))
               else (Some res, hub\<lparr>hub_seriesnumber := Some res\<rparr>)))"

text \<open>
  What the sentence "exchange byte \<open>2i\<close> and \<open>2i+1\<close> for all \<open>i\<close>" describes, written as
  a function of its own to compare the code with.
\<close>

fun swap_pairs :: "'a list \<Rightarrow> 'a list" where
  "swap_pairs (a # b # rest) = b # a # swap_pairs rest"
| "swap_pairs [a] = [a]"
| "swap_pairs [] = []"

section \<open>determineInverterType (lines 87--120)\<close>

text \<open>
  The names \<open>CONF_READ_EPS\<close>, \<open>DEFAULT_READ_EPS\<close> and their siblings come from
  \<open>const.py\<close>, which is imported with \<open>*\<close>; they are parameters of the model.
\<close>

record const_py =
  CONF_READ_EPS :: string
  CONF_READ_DCB :: string
  CONF_READ_PM :: string
  DEFAULT_READ_EPS :: bool
  DEFAULT_READ_DCB :: bool
  DEFAULT_READ_PM :: bool

text \<open>
  Modelled from the spec: the values of the constants of \<open>const.py\<close>. The spec writes the
  toggle as \<open>read_eps\<close>; the keys follow the local names of lines 114--116. The spec gives
  no default values: they are taken as off here. Only the closed examples use this
  instance; every general statement holds for all values of the constants.
\<close>

definition const_example :: const_py where
  "const_example =
     \<lparr>CONF_READ_EPS = ''read_eps'', CONF_READ_DCB = ''read_dcb'', CONF_READ_PM = ''read_pm'',
      DEFAULT_READ_EPS = False, DEFAULT_READ_DCB = False, DEFAULT_READ_PM = False\<rparr>"

text \<open>\<open>not seriesnumber\<close>: true for \<open>None\<close> and for the empty string.\<close>

fun falsy :: "string option \<Rightarrow> bool" where
  "falsy None = True"
| "falsy (Some s) = (s = [])"

text \<open>
  Lines 89--93: the read at 0x445, the retry at 0x2001 when the first result is falsy,
  and the local value \<open>"unknown"\<close> when the second is falsy too. The result is the local
  variable \<open>seriesnumber\<close> and the hub as the reads left it.
\<close>

definition resolve_seriesnumber :: "hub \<Rightarrow> string \<times> hub" where
  "resolve_seriesnumber hub =
     (let (seriesnumber1, hub1) = read_serialnr hub 0x445 False;
          (seriesnumber2, hub2) =
             (if falsy seriesnumber1 then read_serialnr hub1 0x2001 False
              else (seriesnumber1, hub1))
      in (case seriesnumber2 of
            None \<Rightarrow> (''unknown'', hub2)
          | Some s \<Rightarrow> if s = [] then (''unknown'', hub2) else (s, hub2)))"

text \<open>Lines 96--112, the \<open>if\<close>/\<open>elif\<close> chain in its authored order.\<close>

definition invertertype_of_seriesnumber :: "string \<Rightarrow> int" where
  "invertertype_of_seriesnumber seriesnumber =
     (if startswith seriesnumber ''SP1ES120N6'' then HYBRID OR X3
      else if startswith seriesnumber ''SP1'' then HYBRID OR X3 OR GEN
      else if startswith seriesnumber ''SP2'' then HYBRID OR X3 OR GEN
      else if startswith seriesnumber ''SM1E'' then HYBRID OR X3 OR GEN
      else if startswith seriesnumber ''ZM1E'' then HYBRID OR X3 OR GEN
      else if startswith seriesnumber ''SS2E'' then PV OR X3 OR GEN
      else if startswith seriesnumber ''SA1'' then PV OR X1
      else if startswith seriesnumber ''SB1'' then PV OR X1
      else if startswith seriesnumber ''SC1'' then PV OR X3
      else if startswith seriesnumber ''SD1'' then PV OR X3
      else if startswith seriesnumber ''SF4'' then PV OR X3
      else if startswith seriesnumber ''SH1'' then PV OR X3
      else if startswith seriesnumber ''SL1'' then PV OR X3
      else if startswith seriesnumber ''SJ2'' then PV OR X3
      else 0)"

text \<open>
  The same rules as a table in the same order, and the rule "the first entry whose prefix
  matches decides, zero when none does", to compare the chain with.
\<close>

definition prefix_rules :: "(string \<times> int) list" where
  "prefix_rules =
     [(''SP1ES120N6'', HYBRID OR X3),
      (''SP1'', HYBRID OR X3 OR GEN),
      (''SP2'', HYBRID OR X3 OR GEN),
      (''SM1E'', HYBRID OR X3 OR GEN),
      (''ZM1E'', HYBRID OR X3 OR GEN),
      (''SS2E'', PV OR X3 OR GEN),
      (''SA1'', PV OR X1),
      (''SB1'', PV OR X1),
      (''SC1'', PV OR X3),
      (''SD1'', PV OR X3),
      (''SF4'', PV OR X3),
      (''SH1'', PV OR X3),
      (''SL1'', PV OR X3),
      (''SJ2'', PV OR X3)]"

fun first_match :: "(string \<times> int) list \<Rightarrow> string \<Rightarrow> int" where
  "first_match [] s = 0"
| "first_match ((p, m) # rules) s = (if startswith s p then m else first_match rules s)"

definition known_prefixes :: "string list" where
  "known_prefixes = map fst prefix_rules"

text \<open>\<open>configdict.get(key, default)\<close>; the configured values are booleans.\<close>

definition dict_get :: "('k \<rightharpoonup> 'v) \<Rightarrow> 'k \<Rightarrow> 'v \<Rightarrow> 'v" where
  "dict_get d k dflt = (case d k of None \<Rightarrow> dflt | Some v \<Rightarrow> v)"

text \<open>One of the lines 117--119: \<open>if toggle: invertertype = invertertype | bit\<close>.\<close>

definition toggle_step :: "bool \<Rightarrow> int \<Rightarrow> int \<Rightarrow> int" where
  "toggle_step toggle b invertertype = (if toggle then invertertype OR b else invertertype)"

text \<open>Lines 117--119 in their order.\<close>

definition apply_toggles :: "bool \<Rightarrow> bool \<Rightarrow> bool \<Rightarrow> int \<Rightarrow> int" where
  "apply_toggles read_eps read_dcb read_pm invertertype =
     toggle_step read_pm PM (toggle_step read_dcb DCB (toggle_step read_eps EPS invertertype))"

definition determineInverterType :: "const_py \<Rightarrow> hub \<Rightarrow> (string \<rightharpoonup> bool) \<Rightarrow> hub" where
  "determineInverterType c hub configdict =
     (let (seriesnumber, hub') = resolve_seriesnumber hub;
          invertertype = invertertype_of_seriesnumber seriesnumber;
          read_eps = dict_get configdict (CONF_READ_EPS c) (DEFAULT_READ_EPS c);
          read_dcb = dict_get configdict (CONF_READ_DCB c) (DEFAULT_READ_DCB c);
          read_pm = dict_get configdict (CONF_READ_PM c) (DEFAULT_READ_PM c)
      in hub'\<lparr>hub_invertertype := Some (apply_toggles read_eps read_dcb read_pm invertertype)\<rparr>)"

section \<open>Computed sensor values (lines 145--159)\<close>

text \<open>
  A value function takes the raw value, the descriptor and the value mapping; the four
  below use the mapping only. The values are numbers: any linearly ordered ring stands
  for them (the integers in the examples). \<open>datadict[key]\<close> raises KeyError when the key
  is absent, \<open>datadict.get(key, 0)\<close> does not.
\<close>

definition dict_item :: "(string \<rightharpoonup> 'v) \<Rightarrow> string \<Rightarrow> pyerr + 'v" where
  "dict_item d k = (case d k of None \<Rightarrow> Inl (KeyError k) | Some v \<Rightarrow> Inr v)"

definition value_function_pv_total_power ::
  "'i \<Rightarrow> 'd \<Rightarrow> (string \<rightharpoonup> 'a::linordered_idom) \<Rightarrow> pyerr + 'a" where
  "value_function_pv_total_power initval descr datadict =
     Inr (dict_get datadict ''pv_power_1'' 0 + dict_get datadict ''pv_power_2'' 0)"

definition value_function_grid_import ::
  "'i \<Rightarrow> 'd \<Rightarrow> (string \<rightharpoonup> 'a::linordered_idom) \<Rightarrow> pyerr + 'a" where
  "value_function_grid_import initval descr datadict =
     py_bind (dict_item datadict ''feedin_power'') (\<lambda>val.
       if val < 0 then Inr (abs val) else Inr 0)"

definition value_function_grid_export ::
  "'i \<Rightarrow> 'd \<Rightarrow> (string \<rightharpoonup> 'a::linordered_idom) \<Rightarrow> pyerr + 'a" where
  "value_function_grid_export initval descr datadict =
     py_bind (dict_item datadict ''feedin_power'') (\<lambda>val.
       if val > 0 then Inr val else Inr 0)"

definition value_function_house_load ::
  "'i \<Rightarrow> 'd \<Rightarrow> (string \<rightharpoonup> 'a::linordered_idom) \<Rightarrow> pyerr + 'a" where
  "value_function_house_load initval descr datadict =
     py_bind (dict_item datadict ''inverter_load'') (\<lambda>a.
     py_bind (dict_item datadict ''feedin_power'') (\<lambda>b. Inr (a - b)))"

section \<open>Example inputs\<close>

text \<open>
  A hub whose transport answers by the address alone, with no attribute assigned yet,
  and register contents used in the closed examples: the text \<open>PS1ES120N60001\<close>, the text
  \<open>PSE11S026N0010\<close>, a serial number no rule knows, and a transport that answers the
  first address with an error response and the second with no registers.
\<close>

definition example_hub :: "(int \<Rightarrow> read_result) \<Rightarrow> hub" where
  "example_hub answer =
     \<lparr>hub_name = ''sofar'', hub_modbus_addr = 1,
      hub_read_holding_registers = (\<lambda>unit address count. answer address),
      hub_seriesnumber = None, hub_invertertype = None\<rparr>"

definition registers_PS1E :: "16 word list" where
  "registers_PS1E = [0x5053, 0x3145, 0x5331, 0x3230, 0x4E36, 0x3030, 0x3031]"

definition registers_PSE1 :: "16 word list" where
  "registers_PSE1 = [0x5053, 0x4531, 0x3153, 0x3032, 0x364E, 0x3030, 0x3130]"

definition registers_XY9A :: "16 word list" where
  "registers_XY9A = [0x5859, 0x3941, 0x4230, 0x3030, 0x3030, 0x3030, 0x3031]"

definition answer_error_then_empty :: "int \<Rightarrow> read_result" where
  "answer_error_then_empty address = (if address = 0x445 then ReadIsError else ReadRegisters [])"

section \<open>Facts about the definitions\<close>

lemmas bit_defs = GEN_def GEN2_def GEN3_def GEN4_def X1_def X3_def PV_def AC_def
  HYBRID_def MIC_def EPS_def DCB_def PM_def

lemmas group_defs = ALL_GEN_GROUP_def ALL_X_GROUP_def ALL_TYPE_GROUP_def
  ALL_EPS_GROUP_def ALL_DCB_GROUP_def ALL_PM_GROUP_def

lemma startswith_prefix: "startswith s start = prefix start s"
  unfolding startswith_def
  by (metis append_eq_conv_conj prefixE take_is_prefix)

lemma startswith_append: "startswith s start = (\<exists>r. s = start @ r)"
  unfolding startswith_prefix prefix_def ..

lemma blacklist_loop_iff:
  "blacklist_loop sn bl b = (b \<or> (\<exists>start \<in> set bl. startswith sn start))"
  by (induction bl arbitrary: b) auto

lemma is_blacklisted_iff:
  "is_blacklisted sn blacklist =
     (\<exists>bl. blacklist = Some bl \<and> (\<exists>start \<in> set bl. startswith sn start))"
  by (cases blacklist) (auto simp: is_blacklisted_def blacklist_loop_iff)

lemma group_values:
  "ALL_GEN_GROUP = 0x000F" "ALL_X_GROUP = 0x0300" "ALL_TYPE_GROUP = 0x3C00"
  "ALL_EPS_GROUP = 0x8000" "ALL_DCB_GROUP = 0x10000" "ALL_PM_GROUP = 0x20000"
  by (simp_all add: group_defs bit_defs)

lemma group_match_py_int:
  "group_match_py (PInt d) (PInt r) g = Inr (group_match d r g)"
  by (simp add: group_match_py_def group_match_def py_bind_def)

lemma blacklist_loop_py_str:
  "blacklist_loop_py (PStr sn) (map PStr bl) b = Inr (blacklist_loop sn bl b)"
  by (induction bl arbitrary: b) (simp_all add: py_bind_def)

lemma is_blacklisted_py_str:
  "is_blacklisted_py (PStr sn) (py_of_blacklist blacklist) = Inr (is_blacklisted sn blacklist)"
  by (cases blacklist)
     (simp_all add: is_blacklisted_py_def py_of_blacklist_def is_blacklisted_def py_bind_def
        blacklist_loop_py_str)

text \<open>
  The untyped body does raise outside the intended argument types: a string as device
  mask, an integer as serial number once the loop runs, an integer among the prefixes.
\<close>

lemma matchInverterWithMask_py_raises:
  "matchInverterWithMask_py (PStr ''x'') (PInt 0) (PStr sn) PNone = Inl TypeError"
  "matchInverterWithMask_py (PInt 0) (PInt 0) (PInt 5) (PList [PStr ''S'']) = Inl AttributeError"
  "matchInverterWithMask_py (PInt 0) (PInt 0) (PStr ''S'') (PList [PInt 1]) = Inl TypeError"
  by (simp_all add: matchInverterWithMask_py_def group_match_py_def py_bind_def
        is_blacklisted_py_def)

section \<open>Facts about the identity rules and the toggles\<close>

lemma invertertype_first_match: "invertertype_of_seriesnumber s = first_match prefix_rules s"
  by (simp add: invertertype_of_seriesnumber_def prefix_rules_def)

lemma first_match_zero:
  "(\<forall>p \<in> set (map fst rules). \<not> startswith s p) \<Longrightarrow> first_match rules s = 0"
  by (induction rules) auto

lemma invertertype_unrecognized:
  "(\<forall>p \<in> set known_prefixes. \<not> startswith s p) \<Longrightarrow> invertertype_of_seriesnumber s = 0"
  unfolding invertertype_first_match known_prefixes_def by (rule first_match_zero)

lemma toggle_bits: "EPS = 2 ^ 15" "DCB = 2 ^ 16" "PM = 2 ^ 17"
  by (simp_all add: bit_defs)

lemma apply_toggles_or:
  "apply_toggles e d p base =
     base OR (if e then EPS else 0) OR (if d then DCB else 0) OR (if p then PM else 0)"
  by (simp add: apply_toggles_def toggle_step_def ac_simps)

lemma toggle_step_commute:
  "toggle_step t1 b1 (toggle_step t2 b2 x) = toggle_step t2 b2 (toggle_step t1 b1 x)"
  by (simp add: toggle_step_def ac_simps)

lemma sp1es: "startswith s ''SP1ES120N6'' \<Longrightarrow> invertertype_of_seriesnumber s = HYBRID OR X3"
  by (simp add: invertertype_of_seriesnumber_def)

lemma sp1es_sp1: "startswith s ''SP1ES120N6'' \<Longrightarrow> startswith s ''SP1''"
  by (auto simp: startswith_append)

lemma sa1: 
  assumes "startswith s ''SA1''"
  shows "invertertype_of_seriesnumber s = PV OR X1"
proof -
  from assms obtain t where s: "s = ''SA1'' @ t"
    unfolding startswith_append by blast
  show ?thesis
    unfolding s invertertype_of_seriesnumber_def
    by (simp add: startswith_def)
qed

lemma masks_no_gen:
  "(HYBRID OR X3) AND ALL_GEN_GROUP = 0" "(PV OR X1) AND ALL_GEN_GROUP = 0"
  "HYBRID OR X3 \<noteq> HYBRID OR X3 OR GEN"
  by (simp_all add: bit_defs group_defs)

lemma bit_pow_int: "bit ((2::int) ^ m) n = (n = m)"
  by (simp add: bit_exp_iff)

lemma apply_toggles_bit:
  "bit (apply_toggles e d p base) n =
     (bit base n \<or> (e \<and> n = 15) \<or> (d \<and> n = 16) \<or> (p \<and> n = 17))"
proof -
  have "bit (apply_toggles e d p base) n =
     (bit base n \<or> bit (if e then (2::int) ^ 15 else 0) n
        \<or> bit (if d then (2::int) ^ 16 else 0) n \<or> bit (if p then (2::int) ^ 17 else 0) n)"
    unfolding apply_toggles_or toggle_bits by (simp only: bit_or_iff)
  also have "\<dots> = (bit base n \<or> (e \<and> n = 15) \<or> (d \<and> n = 16) \<or> (p \<and> n = 17))"
    by (cases e; cases d; cases p; simp only: bit_pow_int if_True if_False bit_0_eq simp_thms bot_apply bot_bool_def)
  finally show ?thesis .
qed

lemma invertertype_zero_iff:
  "(invertertype_of_seriesnumber s = 0) = (\<forall>p \<in> set known_prefixes. \<not> startswith s p)"
proof
  assume "invertertype_of_seriesnumber s = 0"
  then show "\<forall>p \<in> set known_prefixes. \<not> startswith s p"
    by (simp add: invertertype_of_seriesnumber_def known_prefixes_def prefix_rules_def bit_defs
        split: if_splits)
next
  assume "\<forall>p \<in> set known_prefixes. \<not> startswith s p"
  then show "invertertype_of_seriesnumber s = 0" by (rule invertertype_unrecognized)
qed

section \<open>Facts about the byte swap\<close>

lemma every_second_Cons: "every_second (x # xs) = x # every_second (drop 1 xs)"
  by (cases xs) simp_all

lemma length_every_second: "length (every_second xs) = (length xs + 1) div 2"
  by (induction xs rule: every_second.induct) simp_all

lemma length_overwrite_every_second: "length (overwrite_every_second xs vs) = length xs"
  by (induction xs vs rule: overwrite_every_second.induct) simp_all

lemma length_swap_pairs: "length (swap_pairs xs) = length xs"
  by (induction xs rule: swap_pairs.induct) simp_all

lemma map_swap_pairs: "map f (swap_pairs xs) = swap_pairs (map f xs)"
  by (induction xs rule: swap_pairs.induct) simp_all

lemma list_all_swap_pairs: "list_all P (swap_pairs xs) = list_all P xs"
  by (induction xs rule: swap_pairs.induct) auto

lemma swap_pairs_nth:
  "2 * i + 1 < length xs \<Longrightarrow>
     swap_pairs xs ! (2 * i) = xs ! (2 * i + 1) \<and> swap_pairs xs ! (2 * i + 1) = xs ! (2 * i)"
proof (induction xs arbitrary: i rule: swap_pairs.induct)
  case (1 a b rest)
  show ?case
  proof (cases i)
    case 0
    then show ?thesis by simp
  next
    case (Suc j)
    with "1.prems" have "2 * j + 1 < length rest" by simp
    from "1.IH" [OF this] show ?thesis using Suc by simp
  qed
qed simp_all

lemma even_length_induct [consumes 1, case_names Nil Pair]:
  assumes "even (length xs)" "P []"
    "\<And>a b rest. even (length rest) \<Longrightarrow> P rest \<Longrightarrow> P (a # b # rest)"
  shows "P xs"
  using assms by (induction xs rule: swap_pairs.induct) auto

lemma dup_odd_Nil: "dup_odd [] = []"
  by (simp add: dup_odd_def)

lemma dup_odd_Pair: "dup_odd (a # b # rest) = b # b # dup_odd rest"
  by (simp add: dup_odd_def every_second_Cons)

lemma overwrite_dup_odd:
  assumes "even (length xs)" "xs \<noteq> []"
  shows "overwrite_every_second (drop 1 (dup_odd xs)) (every_second xs) = tl (swap_pairs xs)"
  using assms
proof (induction xs rule: even_length_induct)
  case Nil
  then show ?case by simp
next
  case (Pair a b rest)
  show ?case
  proof (cases rest)
    case Nil
    then show ?thesis by (simp add: dup_odd_Pair dup_odd_Nil)
  next
    case (Cons c rest1)
    with Pair.hyps obtain d rest2 where rest1: "rest1 = d # rest2"
      by (cases rest1) auto
    have ih: "overwrite_every_second (d # dup_odd rest2) (every_second (c # d # rest2))
                = c # swap_pairs rest2"
      using Pair.IH unfolding Cons rest1 by (simp add: dup_odd_Pair)
    show ?thesis
      unfolding Cons rest1 using ih by (simp add: dup_odd_Pair)
  qed
qed

lemma take1_dup_odd:
  assumes "even (length xs)" "xs \<noteq> []"
  shows "take 1 (dup_odd xs) = [hd (swap_pairs xs)]"
  using assms by (induction xs rule: even_length_induct) (simp_all add: dup_odd_Pair)

lemma length_dup_odd: "length (dup_odd xs) = length xs"
  by (simp add: dup_odd_def length_overwrite_every_second)

lemma swap_pairs_hd_tl:
  assumes "even (length xs)" "xs \<noteq> []"
  shows "hd (swap_pairs xs) # tl (swap_pairs xs) = swap_pairs xs"
  using assms by (induction xs rule: even_length_induct) simp_all

lemma swap_slices_even:
  assumes ev: "even (length ba)"
  shows "swap_slices ba = Inr (swap_pairs ba)"
proof (cases "ba = []")
  case True
  then show ?thesis
    by (simp add: swap_slices_def getslice_step2_def setslice_step2_def py_bind_def)
next
  case False
  from ev False have n2: "2 \<le> length ba"
    by (cases ba; cases "tl ba") auto
  have lodd: "length (every_second (drop 1 ba)) = length ba div 2"
    using ev n2 by (simp add: length_every_second)
  have leven: "length (every_second ba) = length ba div 2"
    using ev by (simp add: length_every_second)
  have pos: "0 < length ba div 2" using n2 by simp
  have odd_ne: "every_second (drop 1 ba) \<noteq> []" using lodd pos by auto
  have even_ne: "every_second ba \<noteq> []" using leven pos by auto
  have first: "setslice_step2 0 ba (every_second (drop 1 ba)) = Inr (dup_odd ba)"
    using odd_ne lodd leven by (simp add: setslice_step2_def getslice_step2_def dup_odd_def)
  have lsl: "length (every_second (drop 1 (dup_odd ba))) = length ba div 2"
    using ev n2 by (simp add: length_every_second length_dup_odd)
  have second: "setslice_step2 1 (dup_odd ba) (every_second ba)
      = Inr (take 1 (dup_odd ba) @ overwrite_every_second (drop 1 (dup_odd ba)) (every_second ba))"
    using even_ne lsl leven by (simp add: setslice_step2_def getslice_step2_def)
  show ?thesis
    unfolding swap_slices_def Let_def getslice_step2_def
    using first second overwrite_dup_odd [OF ev False] take1_dup_odd [OF ev False]
      swap_pairs_hd_tl [OF ev False]
    by (simp add: py_bind_def)
qed

lemma swap_slices_odd:
  assumes "odd (length ba)"
  shows "swap_slices ba = Inl ValueError"
proof (cases "length ba = 1")
  case True
  then obtain a where "ba = [a]" by (cases ba) auto
  then show ?thesis
    by (simp add: swap_slices_def getslice_step2_def setslice_step2_def py_bind_def)
next
  case False
  with assms have n3: "3 \<le> length ba" by (cases ba; cases "tl ba"; cases "tl (tl ba)") auto
  have lodd: "length (every_second (drop 1 ba)) = length ba div 2"
    using n3 by (simp add: length_every_second)
  have leven: "length (every_second ba) = length ba div 2 + 1"
    using assms by (simp add: length_every_second)
  have "every_second (drop 1 ba) \<noteq> []" using lodd n3 by auto
  then show ?thesis
    using lodd leven
    by (simp add: swap_slices_def getslice_step2_def setslice_step2_def py_bind_def)
qed

lemma ascii_byte:
  fixes b :: "8 word"
  assumes "b < 128"
  shows "(of_char (char_of (unat b)) :: nat) = unat b" "unat b < 128" "(of_nat (unat b) :: 8 word) = b"
proof -
  have lt: "unat b < 128" using assms by (simp add: word_less_nat_alt)
  then show "(of_char (char_of (unat b)) :: nat) = unat b" by (simp add: of_char_of)
  show "unat b < 128" by (rule lt)
  show "(of_nat (unat b) :: 8 word) = b" by simp
qed

lemma encode_decode_ascii:
  assumes "decode_ascii bs = Inr d"
  shows "encode_ascii d = Inr bs"
proof -
  from assms have a: "list_all (\<lambda>b. b < 128) bs" and d: "d = map (\<lambda>b. char_of (unat b)) bs"
    by (auto simp: decode_ascii_def split: if_splits)
  have pt: "(of_char (char_of (unat b)) :: nat) = unat b \<and> unat b < 128
              \<and> (of_nat (unat b) :: 8 word) = b" if "b \<in> set bs" for b
  proof -
    from that a have "b < 128" by (simp add: list_all_iff)
    from ascii_byte [OF this] show ?thesis by blast
  qed
  have "list_all (\<lambda>c. (of_char c :: nat) < 128) d"
    unfolding d list_all_iff by (auto simp del: of_char_of simp add: pt)
  moreover have "map (\<lambda>c. of_nat (of_char c)) d = bs"
  proof -
    have "map ((\<lambda>c. of_nat (of_char c)) \<circ> (\<lambda>b. char_of (unat b))) bs = map id bs"
      by (rule map_cong) (simp_all del: of_char_of add: pt)
    then show ?thesis unfolding d by simp
  qed
  ultimately show ?thesis by (simp add: encode_ascii_def)
qed

lemma decode_ascii_swap_pairs:
  assumes "decode_ascii bs = Inr d"
  shows "decode_ascii (swap_pairs bs) = Inr (swap_pairs d)"
  using assms
  by (auto simp: decode_ascii_def list_all_swap_pairs map_swap_pairs split: if_splits)

lemma decode_ascii_length: "decode_ascii bs = Inr d \<Longrightarrow> length d = length bs"
  by (auto simp: decode_ascii_def split: if_splits)

lemma swap_text_even:
  assumes "decode_ascii bs = Inr d" "even (length bs)"
  shows "swap_text d = Inr (swap_pairs d)"
  using assms
  by (simp add: swap_text_def encode_decode_ascii swap_slices_even decode_ascii_swap_pairs
      py_bind_def)

lemma length_fromRegisters: "length (fromRegisters registers) = 2 * length registers"
  by (induction registers) (simp_all add: fromRegisters_def)

lemma even_length_payload: "even (length (decode_string 14 (fromRegisters registers)))"
  by (simp add: decode_string_def length_fromRegisters min_def)

section \<open>Facts about reading the serial number\<close>

lemma read_serialnr_fst_seriesnumber:
  "fst (read_serialnr (hub\<lparr>hub_seriesnumber := x\<rparr>) address sw) = fst (read_serialnr hub address sw)"
  by (simp add: read_serialnr_def split: read_result.splits sum.splits)

lemma read_serialnr_snd:
  "snd (read_serialnr hub address sw) = hub
   \<or> (\<exists>x. snd (read_serialnr hub address sw) = hub\<lparr>hub_seriesnumber := x\<rparr>)"
  by (auto simp: read_serialnr_def split: read_result.splits sum.splits)

lemma read_serialnr_fst_after:
  "fst (read_serialnr (snd (read_serialnr hub a1 sw1)) a2 sw2) = fst (read_serialnr hub a2 sw2)"
  using read_serialnr_snd [of hub a1 sw1]
  by (auto simp: read_serialnr_fst_seriesnumber)

lemma resolve_seriesnumber_fst:
  "fst (resolve_seriesnumber hub) =
     (let r1 = fst (read_serialnr hub 0x445 False);
          r2 = (if falsy r1 then fst (read_serialnr hub 0x2001 False) else r1)
      in if falsy r2 then ''unknown'' else the r2)"
proof -
  obtain s1 h1 where r1: "read_serialnr hub 0x445 False = (s1, h1)" by (cases "read_serialnr hub 0x445 False")
  obtain s2 h2 where r2: "read_serialnr h1 0x2001 False = (s2, h2)" by (cases "read_serialnr h1 0x2001 False")
  have h1: "h1 = snd (read_serialnr hub 0x445 False)" using r1 by simp
  have s2: "s2 = fst (read_serialnr hub 0x2001 False)"
    using r2 read_serialnr_fst_after [of hub "0x445" False "0x2001" False] unfolding h1 by simp
  show ?thesis
    unfolding resolve_seriesnumber_def r1 Let_def prod.case
    by (cases s1; cases s2) (auto simp: r1 r2 s2 [symmetric] split: option.splits)
qed

lemma resolve_seriesnumber_unknown:
  assumes "falsy (fst (read_serialnr hub 0x445 False))" "falsy (fst (read_serialnr hub 0x2001 False))"
  shows "fst (resolve_seriesnumber hub) = ''unknown''"
  using assms by (simp add: resolve_seriesnumber_fst)

lemma resolve_seriesnumber_primary:
  assumes "fst (read_serialnr hub 0x445 False) = Some s" "s \<noteq> []"
  shows "fst (resolve_seriesnumber hub) = s"
  using assms by (simp add: resolve_seriesnumber_fst)

lemma resolve_seriesnumber_fallback:
  assumes "falsy (fst (read_serialnr hub 0x445 False))"
    "fst (read_serialnr hub 0x2001 False) = Some s" "s \<noteq> []"
  shows "fst (resolve_seriesnumber hub) = s"
  using assms by (simp add: resolve_seriesnumber_fst)

lemma determineInverterType_invertertype:
  "hub_invertertype (determineInverterType c hub configdict) =
     Some (apply_toggles (dict_get configdict (CONF_READ_EPS c) (DEFAULT_READ_EPS c))
                         (dict_get configdict (CONF_READ_DCB c) (DEFAULT_READ_DCB c))
                         (dict_get configdict (CONF_READ_PM c) (DEFAULT_READ_PM c))
             (invertertype_of_seriesnumber (fst (resolve_seriesnumber hub))))"
  by (simp add: determineInverterType_def Let_def split: prod.splits)

lemma invertertype_unknown: "invertertype_of_seriesnumber ''unknown'' = 0"
  by (simp add: invertertype_of_seriesnumber_def startswith_def)

lemma toggles_zero_iff:
  "((if e then EPS else 0) OR (if d then DCB else 0) OR (if p then PM else 0) = 0)
     = (\<not> e \<and> \<not> d \<and> \<not> p)"
  by (cases e; cases d; cases p; simp add: bit_defs)

lemma read_raises: "read_serialnr (example_hub (\<lambda>a. ReadRaises)) address sw = (None, example_hub (\<lambda>a. ReadRaises))"
  by (simp add: read_serialnr_def example_hub_def)

lemma decode_PS1E:
  "decode_ascii (decode_string 14 (fromRegisters registers_PS1E)) = Inr ''PS1ES120N60001''"
  by code_simp

lemma decode_PSE1:
  "decode_ascii (decode_string 14 (fromRegisters registers_PSE1)) = Inr ''PSE11S026N0010''"
  by code_simp

lemma read_serialnr_registers:
  assumes "hub_read_holding_registers hub (hub_modbus_addr hub) address 7 = ReadRegisters registers"
    "decode_ascii (decode_string 14 (fromRegisters registers)) = Inr d"
  shows "read_serialnr hub address False = (Some d, hub\<lparr>hub_seriesnumber := Some d\<rparr>)"
    "read_serialnr hub address True
       = (Some (swap_pairs d), hub\<lparr>hub_seriesnumber := Some (swap_pairs d)\<rparr>)"
  using assms swap_text_even [OF assms(2) even_length_payload]
  by (simp_all add: read_serialnr_def)

lemma read_serialnr_Some:
  assumes "fst (read_serialnr hub address sw) = Some r"
  shows "\<exists>registers d. hub_read_holding_registers hub (hub_modbus_addr hub) address 7
            = ReadRegisters registers
          \<and> decode_ascii (decode_string 14 (fromRegisters registers)) = Inr d"
  using assms by (auto simp: read_serialnr_def split: read_result.splits sum.splits)

lemma read_serialnr_None_iff:
  "(fst (read_serialnr hub address sw) = None) =
     (case hub_read_holding_registers hub (hub_modbus_addr hub) address 7 of
        ReadRaises \<Rightarrow> True
      | ReadIsError \<Rightarrow> True
      | ReadRegisters registers \<Rightarrow>
          (\<exists>e. decode_ascii (decode_string 14 (fromRegisters registers)) = Inl e))"
  by (auto simp: read_serialnr_def split: read_result.splits sum.splits if_splits)

lemma startswith_PS1E:
  assumes "startswith d ''PS1E''"
  shows "startswith (swap_pairs d) ''SPE1''"
proof -
  from assms obtain t where "d = ''PS1E'' @ t" unfolding startswith_append by blast
  then show ?thesis by (simp add: startswith_def)
qed

lemma startswith_PSE1:
  assumes "startswith d ''PSE1''"
  shows "startswith (swap_pairs d) ''SP1E''"
proof -
  from assms obtain t where "d = ''PSE1'' @ t" unfolding startswith_append by blast
  then show ?thesis by (simp add: startswith_def)
qed

lemma example_hub_read:
  "hub_read_holding_registers (example_hub answer) (hub_modbus_addr (example_hub answer)) address 7
     = answer address"
  by (simp add: example_hub_def)

lemma decode_XY9A:
  "decode_ascii (decode_string 14 (fromRegisters registers_XY9A)) = Inr ''XY9AB000000001''"
  by code_simp

lemma read_error_then_empty:
  "fst (read_serialnr (example_hub answer_error_then_empty) 0x445 False) = None"
  "fst (read_serialnr (example_hub answer_error_then_empty) 0x2001 False) = Some []"
  by (simp_all add: read_serialnr_def example_hub_def answer_error_then_empty_def
      decode_ascii_def decode_string_def fromRegisters_def)

text \<open>
  When both reads fail the attribute \<open>hub.seriesnumber\<close> keeps its old value or holds the
  empty string read last: the text \<open>unknown\<close> is a local value only.
\<close>

lemma read_serialnr_falsy_hub:
  assumes "falsy (fst (read_serialnr hub address False))"
  shows "snd (read_serialnr hub address False) = hub
       \<or> snd (read_serialnr hub address False) = hub\<lparr>hub_seriesnumber := Some []\<rparr>"
  using assms
  by (auto simp: read_serialnr_def split: read_result.splits sum.splits)

lemma resolve_seriesnumber_failed_hub:
  assumes "falsy (fst (read_serialnr hub 0x445 False))"
    and "falsy (fst (read_serialnr hub 0x2001 False))"
  shows "snd (resolve_seriesnumber hub) = hub
       \<or> snd (resolve_seriesnumber hub) = hub\<lparr>hub_seriesnumber := Some []\<rparr>"
proof -
  obtain s1 h1 where r1: "read_serialnr hub 0x445 False = (s1, h1)"
    by (cases "read_serialnr hub 0x445 False")
  obtain s2 h2 where r2: "read_serialnr h1 0x2001 False = (s2, h2)"
    by (cases "read_serialnr h1 0x2001 False")
  have f1: "falsy s1" using assms(1) r1 by simp
  have h1: "h1 = hub \<or> h1 = hub\<lparr>hub_seriesnumber := Some []\<rparr>"
    using read_serialnr_falsy_hub [OF assms(1)] r1 by simp
  have f2: "falsy (fst (read_serialnr h1 0x2001 False))"
    using h1 assms(2) by (auto simp: read_serialnr_fst_seriesnumber)
  have h2: "h2 = h1 \<or> h2 = h1\<lparr>hub_seriesnumber := Some []\<rparr>"
    using read_serialnr_falsy_hub [OF f2] r2 by simp
  have s2: "falsy s2" using f2 r2 by simp
  have "snd (resolve_seriesnumber hub) = h2"
    using f1 s2 by (cases s2) (simp_all add: resolve_seriesnumber_def r1 r2)
  with h1 h2 show ?thesis by auto
qed

lemma determineInverterType_failed_seriesnumber:
  assumes "falsy (fst (read_serialnr hub 0x445 False))"
    and "falsy (fst (read_serialnr hub 0x2001 False))"
  shows "hub_seriesnumber (determineInverterType c hub configdict) = hub_seriesnumber hub
       \<or> hub_seriesnumber (determineInverterType c hub configdict) = Some []"
proof -
  have "hub_seriesnumber (determineInverterType c hub configdict)
          = hub_seriesnumber (snd (resolve_seriesnumber hub))"
    by (simp add: determineInverterType_def Let_def split: prod.splits)
  with resolve_seriesnumber_failed_hub [OF assms] show ?thesis by auto
qed

section \<open>Claims about matchInverterWithMask\<close>

text \<open>
  C1. For every device mask, requirement mask, serial number and blacklist,
  \<open>matchInverterWithMask\<close> is true if and only if, for each of the six groups, the AND of
  device mask, requirement mask and group mask is non-zero or the requirement mask has
  no bit in the group, and the serial number starts with no entry of the blacklist.
\<close>

theorem matchInverterWithMask_iff:
  "matchInverterWithMask d r sn blacklist =
     ((\<forall>g \<in> set all_groups. (d AND r AND g) \<noteq> 0 \<or> r AND g = 0) \<and>
      (\<forall>start \<in> set (blacklist_entries blacklist). \<not> (\<exists>rest. sn = start @ rest)))"
  by (cases blacklist)
     (auto simp: matchInverterWithMask_def group_match_def all_groups_def is_blacklisted_iff
        and.assoc blacklist_entries_def startswith_append)

theorem matchInverterWithMask_iff_witness:
  "matchInverterWithMask 0x1201 0x1000 ''SP1ES'' (Some [''SM1''])
   \<and> list_all (\<lambda>g. ((0x1201::int) AND 0x1000 AND g) \<noteq> 0 \<or> (0x1000::int) AND g = 0) all_groups
   \<and> list_all (\<lambda>start. \<not> (\<exists>rest. ''SP1ES'' = start @ rest))
         (blacklist_entries (Some [''SM1'']))
   \<and> \<not> matchInverterWithMask 0x1201 0x0400 ''SP1ES'' (Some [''SM1''])
   \<and> \<not> matchInverterWithMask 0x1201 0x1000 ''SP1ES'' (Some [''SM1'', ''SP1E''])"
  using matchInverterWithMask_iff [of "0x1201" "0x1000" "''SP1ES''" "Some [''SM1'']"]
    matchInverterWithMask_iff [of "0x1201" "0x0400" "''SP1ES''" "Some [''SM1'']"]
    matchInverterWithMask_iff [of "0x1201" "0x1000" "''SP1ES''" "Some [''SM1'', ''SP1E'']"]
  by (simp add: all_groups_def group_values blacklist_entries_def)

text \<open>
  C7. With requirement mask 0 and no blacklist (absent or empty) the function is true for
  every device mask, zero included, and every serial number, the default one included.
\<close>

theorem matchInverterWithMask_zero_mask:
  "matchInverterWithMask inverterspec 0 serialnumber None
   \<and> matchInverterWithMask inverterspec 0 serialnumber (Some [])
   \<and> matchInverterWithMask inverterspec ALLDEFAULT default_serialnumber None"
  by (simp add: matchInverterWithMask_def group_match_def is_blacklisted_def ALLDEFAULT_def)

text \<open>
  C8. The function is false because of the blacklist (true without it, false with it)
  exactly when the blacklist is a non-empty list and the serial number starts,
  character for character, with one of its entries. Whether a serial number is
  blacklisted does not depend on the masks, and nothing is blacklisted by an absent or
  empty blacklist.
\<close>

theorem matchInverterWithMask_blacklist:
  "((matchInverterWithMask d r sn None \<and> \<not> matchInverterWithMask d r sn blacklist) =
      (matchInverterWithMask d r sn None \<and>
        (\<exists>bl. blacklist = Some bl \<and> bl \<noteq> [] \<and>
          (\<exists>start \<in> set bl. \<exists>rest. sn = start @ rest))))
   \<and> matchInverterWithMask d r sn blacklist =
        (matchInverterWithMask d r sn None \<and> \<not> is_blacklisted sn blacklist)
   \<and> is_blacklisted sn blacklist =
        (\<exists>bl. blacklist = Some bl \<and> bl \<noteq> [] \<and>
          (\<exists>start \<in> set bl. \<exists>rest. sn = start @ rest))
   \<and> \<not> is_blacklisted sn None \<and> \<not> is_blacklisted sn (Some [])"
  by (cases blacklist)
     (auto simp: matchInverterWithMask_def is_blacklisted_iff startswith_append)

text \<open>An upper-case serial number is blacklisted by \<open>SP1\<close> and not by \<open>sp1\<close>.\<close>

theorem matchInverterWithMask_blacklist_witness:
  "\<not> matchInverterWithMask 0 0 ''SP1ES120'' (Some [''SM1'', ''SP1''])
   \<and> matchInverterWithMask 0 0 ''SP1ES120'' (Some [''sp1''])
   \<and> matchInverterWithMask 0 0 ''SP1ES120'' None"
  using matchInverterWithMask_blacklist [of 0 0 "''SP1ES120''" "Some [''SM1'', ''SP1'']"]
    matchInverterWithMask_blacklist [of 0 0 "''SP1ES120''" "Some [''sp1'']"]
    matchInverterWithMask_blacklist [of 0 0 "''SP1ES120''" None]
  by (simp add: matchInverterWithMask_def group_match_def)

text \<open>
  C9. On two integers, a string and a blacklist that is \<open>None\<close> or a list of strings, the
  body evaluated over Python values raises nothing: it returns a boolean, the one the
  typed function computes. The body binds local names only and calls nothing but
  \<open>&\<close>, comparisons and \<open>str.startswith\<close>, none of which writes to its operands.
\<close>

theorem matchInverterWithMask_total:
  "matchInverterWithMask_py (PInt d) (PInt r) (PStr sn) (py_of_blacklist blacklist)
     = Inr (matchInverterWithMask d r sn blacklist)"
  by (simp add: matchInverterWithMask_py_def matchInverterWithMask_def group_match_py_int
        is_blacklisted_py_str py_bind_def)

section \<open>Claims about the computed sensor values\<close>

text \<open>
  C10. When the mapping holds \<open>feedin_power\<close> with value \<open>v\<close>, the grid-export function
  returns \<open>v\<close> if \<open>v > 0\<close> and 0 otherwise, the grid-import function returns \<open>|v|\<close> if
  \<open>v < 0\<close> and 0 otherwise; both results are non-negative, at most one is non-zero, and
  export minus import is \<open>v\<close>.
\<close>

theorem grid_export_import:
  fixes v :: "'a::linordered_idom"
  assumes "datadict ''feedin_power'' = Some v"
  shows "value_function_grid_export i1 d1 datadict = Inr (if v > 0 then v else 0)
       \<and> value_function_grid_import i2 d2 datadict = Inr (if v < 0 then \<bar>v\<bar> else 0)
       \<and> (\<exists>e m. value_function_grid_export i1 d1 datadict = Inr e
                \<and> value_function_grid_import i2 d2 datadict = Inr m
                \<and> 0 \<le> e \<and> 0 \<le> m \<and> (e = 0 \<or> m = 0) \<and> e - m = v)"
  using assms
  by (auto simp: value_function_grid_export_def value_function_grid_import_def
        dict_item_def py_bind_def)

theorem grid_export_import_witness:
  "value_function_grid_export () () [''feedin_power'' \<mapsto> (-250::int)] = Inr 0
   \<and> value_function_grid_import () () [''feedin_power'' \<mapsto> (-250::int)] = Inr 250
   \<and> value_function_grid_export () () [''feedin_power'' \<mapsto> (120::int)] = Inr 120
   \<and> value_function_grid_import () () [''feedin_power'' \<mapsto> (120::int)] = Inr 0"
  using grid_export_import [of "[''feedin_power'' \<mapsto> (-250::int)]" "-250" "()" "()" "()" "()"]
    grid_export_import [of "[''feedin_power'' \<mapsto> (120::int)]" "120" "()" "()" "()" "()"]
  by simp

text \<open>
  C3, as stated: every value function fails with a missing-key error when a key it reads
  is absent, the pv-total-power function included. It does not: on the empty mapping
  \<open>value_function_pv_total_power\<close> returns 0.
\<close>

theorem pv_total_power_no_key_error:
  "value_function_pv_total_power () () (Map.empty :: string \<rightharpoonup> int) = Inr 0"
  by (simp add: value_function_pv_total_power_def dict_get_def)

text \<open>
  C3, amended. The grid-import and grid-export functions fail with KeyError exactly when
  \<open>feedin_power\<close> is absent; the house-load function fails with KeyError exactly when
  \<open>inverter_load\<close> or \<open>feedin_power\<close> is absent (naming \<open>inverter_load\<close> first); the
  pv-total-power function never fails: it reads \<open>pv_power_1\<close> and \<open>pv_power_2\<close> with 0
  in place of an absent key. The three remaining value functions of the file (lines
  161--173) read no key of the mapping.
\<close>

theorem value_functions_missing_key:
  fixes datadict :: "string \<rightharpoonup> 'a::linordered_idom"
  shows "(value_function_grid_import i1 d1 datadict = Inl (KeyError ''feedin_power''))
            = (datadict ''feedin_power'' = None)
       \<and> (value_function_grid_export i2 d2 datadict = Inl (KeyError ''feedin_power''))
            = (datadict ''feedin_power'' = None)
       \<and> (datadict ''inverter_load'' = None \<longrightarrow>
            value_function_house_load i3 d3 datadict = Inl (KeyError ''inverter_load''))
       \<and> (datadict ''inverter_load'' \<noteq> None \<longrightarrow> datadict ''feedin_power'' = None \<longrightarrow>
            value_function_house_load i3 d3 datadict = Inl (KeyError ''feedin_power''))
       \<and> ((\<exists>e. value_function_house_load i3 d3 datadict = Inl e)
            = (datadict ''inverter_load'' = None \<or> datadict ''feedin_power'' = None))
       \<and> ((\<exists>e. value_function_grid_import i1 d1 datadict = Inl e)
            = (datadict ''feedin_power'' = None))
       \<and> ((\<exists>e. value_function_grid_export i2 d2 datadict = Inl e)
            = (datadict ''feedin_power'' = None))
       \<and> value_function_pv_total_power i4 d4 datadict
            = Inr ((case datadict ''pv_power_1'' of None \<Rightarrow> 0 | Some a \<Rightarrow> a)
                 + (case datadict ''pv_power_2'' of None \<Rightarrow> 0 | Some b \<Rightarrow> b))"
  by (auto simp: value_function_grid_export_def value_function_grid_import_def
        value_function_house_load_def value_function_pv_total_power_def
        dict_item_def dict_get_def py_bind_def split: option.splits)

theorem value_functions_missing_key_witness:
  "value_function_grid_import () () (Map.empty :: string \<rightharpoonup> int) = Inl (KeyError ''feedin_power'')
   \<and> value_function_grid_export () () (Map.empty :: string \<rightharpoonup> int) = Inl (KeyError ''feedin_power'')
   \<and> value_function_house_load () () (Map.empty :: string \<rightharpoonup> int) = Inl (KeyError ''inverter_load'')
   \<and> value_function_house_load () () [''inverter_load'' \<mapsto> (5::int)] = Inl (KeyError ''feedin_power'')
   \<and> value_function_house_load () () [''inverter_load'' \<mapsto> (5::int), ''feedin_power'' \<mapsto> 2] = Inr 3
   \<and> value_function_pv_total_power () () [''pv_power_2'' \<mapsto> (7::int)] = Inr 7"
  using value_functions_missing_key
      [of "()" "()" "Map.empty :: string \<rightharpoonup> int" "()" "()" "()" "()" "()" "()"]
    value_functions_missing_key
      [of "()" "()" "[''inverter_load'' \<mapsto> (5::int)]" "()" "()" "()" "()" "()" "()"]
    value_functions_missing_key
      [of "()" "()" "[''inverter_load'' \<mapsto> (5::int), ''feedin_power'' \<mapsto> 2]"
          "()" "()" "()" "()" "()" "()"]
    value_functions_missing_key
      [of "()" "()" "[''pv_power_2'' \<mapsto> (7::int)]" "()" "()" "()" "()" "()" "()"]
  by (simp add: value_function_house_load_def dict_item_def py_bind_def)

section \<open>Claims about the identity resolver\<close>

text \<open>
  C4. The rules are applied in their authored order and the first matching prefix
  decides: a serial number starting with \<open>SP1ES120N6\<close> gets exactly HYBRID | X3, without
  a generation bit, although \<open>SP1\<close> matches it too and maps to HYBRID | X3 | GEN; a
  serial number starting with \<open>SA1\<close> gets exactly PV | X1, without a generation bit.
\<close>

theorem prefix_rules_first_match:
  "(startswith s ''SP1ES120N6'' \<longrightarrow>
      invertertype_of_seriesnumber s = HYBRID OR X3
      \<and> invertertype_of_seriesnumber s AND ALL_GEN_GROUP = 0
      \<and> startswith s ''SP1''
      \<and> invertertype_of_seriesnumber s \<noteq> HYBRID OR X3 OR GEN)
   \<and> (startswith s ''SA1'' \<longrightarrow>
      invertertype_of_seriesnumber s = PV OR X1
      \<and> invertertype_of_seriesnumber s AND ALL_GEN_GROUP = 0)
   \<and> invertertype_of_seriesnumber s = first_match prefix_rules s"
  using sp1es [of s] sp1es_sp1 [of s] sa1 [of s] masks_no_gen invertertype_first_match [of s]
  by auto

theorem prefix_rules_first_match_witness:
  "invertertype_of_seriesnumber ''SP1ES120N6XXXX'' = 0x1200
   \<and> invertertype_of_seriesnumber ''SA1ES120N6XXXX'' = 0x0500
   \<and> first_match [(''SP1'', HYBRID OR X3 OR GEN)] ''SP1ES120N6XXXX'' = 0x1201"
  using prefix_rules_first_match [of "''SP1ES120N6XXXX''"] prefix_rules_first_match [of "''SA1ES120N6XXXX''"]
  by (simp add: startswith_def bit_defs)

text \<open>
  C5. An identity string that matches no known prefix has base mask zero, and the toggles
  still apply: with \<open>read_eps\<close> on and the two others off the mask is exactly EPS. For any
  base mask the final mask is the base mask OR the bits of the enabled toggles, each
  toggle setting its own bit (15, 16, 17) and no other, in whatever order the three
  steps run; this is the mask \<open>determineInverterType\<close> stores on the hub.
\<close>

theorem unrecognized_identity_toggles:
  "((\<forall>p \<in> set known_prefixes. \<not> startswith s p) \<longrightarrow>
      invertertype_of_seriesnumber s = 0
      \<and> apply_toggles True False False (invertertype_of_seriesnumber s) = EPS
      \<and> apply_toggles e d p (invertertype_of_seriesnumber s)
          = (if e then EPS else 0) OR (if d then DCB else 0) OR (if p then PM else 0))
   \<and> apply_toggles e d p base
       = base OR (if e then EPS else 0) OR (if d then DCB else 0) OR (if p then PM else 0)
   \<and> bit (apply_toggles e d p base) n
       = (bit base n \<or> (e \<and> n = 15) \<or> (d \<and> n = 16) \<or> (p \<and> n = 17))
   \<and> toggle_step e EPS (toggle_step d DCB (toggle_step p PM base)) = apply_toggles e d p base
   \<and> toggle_step d DCB (toggle_step e EPS (toggle_step p PM base)) = apply_toggles e d p base
   \<and> toggle_step e EPS (toggle_step p PM (toggle_step d DCB base)) = apply_toggles e d p base
   \<and> toggle_step p PM (toggle_step e EPS (toggle_step d DCB base)) = apply_toggles e d p base
   \<and> toggle_step d DCB (toggle_step p PM (toggle_step e EPS base)) = apply_toggles e d p base
   \<and> hub_invertertype (determineInverterType c hub configdict)
       = Some (invertertype_of_seriesnumber (fst (resolve_seriesnumber hub))
               OR (if dict_get configdict (CONF_READ_EPS c) (DEFAULT_READ_EPS c) then EPS else 0)
               OR (if dict_get configdict (CONF_READ_DCB c) (DEFAULT_READ_DCB c) then DCB else 0)
               OR (if dict_get configdict (CONF_READ_PM c) (DEFAULT_READ_PM c) then PM else 0))"
proof -
  have perm: "toggle_step e EPS (toggle_step d DCB (toggle_step p PM base)) = apply_toggles e d p base"
    "toggle_step d DCB (toggle_step e EPS (toggle_step p PM base)) = apply_toggles e d p base"
    "toggle_step e EPS (toggle_step p PM (toggle_step d DCB base)) = apply_toggles e d p base"
    "toggle_step p PM (toggle_step e EPS (toggle_step d DCB base)) = apply_toggles e d p base"
    "toggle_step d DCB (toggle_step p PM (toggle_step e EPS base)) = apply_toggles e d p base"
    by (simp_all add: apply_toggles_def toggle_step_def ac_simps)
  have zero: "invertertype_of_seriesnumber s = 0" if "\<forall>p \<in> set known_prefixes. \<not> startswith s p"
    using that by (rule invertertype_unrecognized)
  have z2: "apply_toggles True False False 0 = EPS"
    "apply_toggles e d p 0 = (if e then EPS else 0) OR (if d then DCB else 0) OR (if p then PM else 0)"
    by (simp_all add: apply_toggles_or)
  show ?thesis
    using perm zero z2 apply_toggles_or [of e d p base] apply_toggles_bit [of e d p base n]
      determineInverterType_invertertype [of c hub configdict]
    by (simp add: apply_toggles_or)
qed

theorem unrecognized_identity_toggles_witness:
  "list_all (\<lambda>p. \<not> startswith ''XY9AB000000001'' p) known_prefixes
   \<and> invertertype_of_seriesnumber ''XY9AB000000001'' = 0
   \<and> apply_toggles True False False (invertertype_of_seriesnumber ''XY9AB000000001'') = 0x8000
   \<and> hub_invertertype (determineInverterType const_example
        (example_hub (\<lambda>a. ReadRegisters registers_XY9A)) [''read_eps'' \<mapsto> True]) = Some 0x8000"
proof -
  have n: "\<forall>p \<in> set known_prefixes. \<not> startswith ''XY9AB000000001'' p"
    by (simp add: known_prefixes_def prefix_rules_def startswith_def)
  have r: "fst (resolve_seriesnumber (example_hub (\<lambda>a. ReadRegisters registers_XY9A)))
             = ''XY9AB000000001''"
    using read_serialnr_registers(1) [OF example_hub_read decode_XY9A, of "0x445"]
    by (simp add: resolve_seriesnumber_primary)
  from n unrecognized_identity_toggles [where s = "''XY9AB000000001''" and e = True and d = False and p = False
      and base = 0 and n = 0 and c = const_example
      and hub = "example_hub (\<lambda>a. ReadRegisters registers_XY9A)"
      and configdict = "[''read_eps'' \<mapsto> True]"]
  show ?thesis
    by (simp add: r list_all_iff const_example_def dict_get_def bit_defs)
qed

text \<open>
  C2, as stated: when both reads of the serial number fail, the mask stored on the hub is
  0 for every configuration. It is not: with \<open>read_eps\<close> configured on and a transport that
  raises at both addresses, the stored mask is EPS.
\<close>

theorem both_reads_fail_mask_nonzero:
  "hub_invertertype (determineInverterType const_example (example_hub (\<lambda>a. ReadRaises))
      [''read_eps'' \<mapsto> True, ''read_dcb'' \<mapsto> False, ''read_pm'' \<mapsto> False]) = Some 0x8000
   \<and> fst (read_serialnr (example_hub (\<lambda>a. ReadRaises)) 0x445 False) = None
   \<and> fst (read_serialnr (example_hub (\<lambda>a. ReadRaises)) 0x2001 False) = None"
  by (simp add: determineInverterType_invertertype resolve_seriesnumber_unknown read_raises
      invertertype_unknown const_example_def dict_get_def apply_toggles_def toggle_step_def EPS_def)

text \<open>
  C2, amended. When the read at 0x445 and the retry at 0x2001 both fail (no result or an
  empty string), the identity is the synthetic \<open>unknown\<close>, the base mask is zero, and the
  mask stored on the hub is the OR of the bits of the enabled toggles: it is 0 exactly
  when \<open>read_eps\<close>, \<open>read_dcb\<close> and \<open>read_pm\<close> are all off.
\<close>

theorem both_reads_fail_toggles:
  assumes "falsy (fst (read_serialnr hub 0x445 False))"
    and "falsy (fst (read_serialnr hub 0x2001 False))"
  shows "fst (resolve_seriesnumber hub) = ''unknown''
       \<and> invertertype_of_seriesnumber (fst (resolve_seriesnumber hub)) = 0
       \<and> hub_invertertype (determineInverterType c hub configdict)
           = Some ((if dict_get configdict (CONF_READ_EPS c) (DEFAULT_READ_EPS c) then EPS else 0)
               OR (if dict_get configdict (CONF_READ_DCB c) (DEFAULT_READ_DCB c) then DCB else 0)
               OR (if dict_get configdict (CONF_READ_PM c) (DEFAULT_READ_PM c) then PM else 0))
       \<and> (hub_invertertype (determineInverterType c hub configdict) = Some 0)
           = (\<not> dict_get configdict (CONF_READ_EPS c) (DEFAULT_READ_EPS c)
              \<and> \<not> dict_get configdict (CONF_READ_DCB c) (DEFAULT_READ_DCB c)
              \<and> \<not> dict_get configdict (CONF_READ_PM c) (DEFAULT_READ_PM c))"
proof -
  have u: "fst (resolve_seriesnumber hub) = ''unknown''"
    using assms by (rule resolve_seriesnumber_unknown)
  show ?thesis
    unfolding determineInverterType_invertertype u invertertype_unknown apply_toggles_or
    by (simp add: toggles_zero_iff)
qed

theorem both_reads_fail_toggles_witness:
  "fst (resolve_seriesnumber (example_hub answer_error_then_empty)) = ''unknown''
   \<and> hub_invertertype (determineInverterType const_example (example_hub answer_error_then_empty)
        Map.empty) = Some 0
   \<and> hub_invertertype (determineInverterType const_example (example_hub answer_error_then_empty)
        [''read_dcb'' \<mapsto> True]) = Some 0x10000"
proof -
  have f: "falsy (fst (read_serialnr (example_hub answer_error_then_empty) 0x445 False))"
    "falsy (fst (read_serialnr (example_hub answer_error_then_empty) 0x2001 False))"
    by (simp_all add: read_error_then_empty)
  from both_reads_fail_toggles [OF f, of const_example Map.empty]
    both_reads_fail_toggles [OF f, of const_example "[''read_dcb'' \<mapsto> True]"]
  show ?thesis
    by (simp add: const_example_def dict_get_def bit_defs)
qed

text \<open>
  C6, as stated, includes the example that the swap turns raw bytes \<open>PS1E...\<close> into
  \<open>SP1E...\<close>. Exchanging bytes \<open>2i\<close> and \<open>2i+1\<close> turns them into \<open>SPE1...\<close>: registers
  holding \<open>PS1ES120N60001\<close> are read, with the flag set, as \<open>SPE11S026N0010\<close>.
\<close>

theorem read_serialnr_swap_PS1E:
  "fst (read_serialnr (example_hub (\<lambda>a. ReadRegisters registers_PS1E)) 0x445 False)
      = Some ''PS1ES120N60001''
   \<and> fst (read_serialnr (example_hub (\<lambda>a. ReadRegisters registers_PS1E)) 0x445 True)
      = Some ''SPE11S026N0010''
   \<and> \<not> startswith ''SPE11S026N0010'' ''SP1E''"
  using read_serialnr_registers [OF example_hub_read decode_PS1E, of "0x445"]
  by (simp add: startswith_def)

text \<open>
  C6, amended. Whenever the read without the flag returns a text \<open>d\<close> (the transport
  answered with registers and their first 14 bytes are ASCII), the read with the flag
  returns \<open>d\<close> with the bytes \<open>2i\<close> and \<open>2i+1\<close> exchanged for all \<open>i\<close>, of the same
  (even) length, and stores it on the hub; without the flag the decoded text is returned
  and stored unchanged. Raw bytes \<open>PS1E...\<close> are read as \<open>SPE1...\<close> and raw bytes
  \<open>PSE1...\<close> as \<open>SP1E...\<close>. The reader is a function of the transport's answer and the
  flag: equal inputs give equal outputs.
\<close>

theorem read_serialnr_swapbytes:
  assumes "fst (read_serialnr hub address False) = Some d"
  shows "fst (read_serialnr hub address True) = Some (swap_pairs d)
       \<and> hub_seriesnumber (snd (read_serialnr hub address True)) = Some (swap_pairs d)
       \<and> hub_seriesnumber (snd (read_serialnr hub address False)) = Some d
       \<and> (\<exists>registers. hub_read_holding_registers hub (hub_modbus_addr hub) address 7
                = ReadRegisters registers
              \<and> decode_ascii (decode_string 14 (fromRegisters registers)) = Inr d)
       \<and> even (length d) \<and> length (swap_pairs d) = length d
       \<and> (\<forall>i. 2 * i + 1 < length d \<longrightarrow>
             swap_pairs d ! (2 * i) = d ! (2 * i + 1) \<and> swap_pairs d ! (2 * i + 1) = d ! (2 * i))
       \<and> (startswith d ''PS1E'' \<longrightarrow> startswith (swap_pairs d) ''SPE1'')
       \<and> (startswith d ''PSE1'' \<longrightarrow> startswith (swap_pairs d) ''SP1E'')"
proof -
  from read_serialnr_Some [OF assms] obtain registers d' where
    rd: "hub_read_holding_registers hub (hub_modbus_addr hub) address 7 = ReadRegisters registers"
    and dec: "decode_ascii (decode_string 14 (fromRegisters registers)) = Inr d'"
    by blast
  note r = read_serialnr_registers [OF rd dec]
  from assms r(1) have d: "d' = d" by simp
  have ev: "even (length d)"
    using decode_ascii_length [OF dec] even_length_payload [of registers] d by simp
  show ?thesis
    using r rd dec ev swap_pairs_nth [of _ d] startswith_PS1E [of d] startswith_PSE1 [of d]
    unfolding d by (simp add: length_swap_pairs)
qed

theorem read_serialnr_swapbytes_witness:
  "fst (read_serialnr (example_hub (\<lambda>a. ReadRegisters registers_PSE1)) 0x445 False)
      = Some ''PSE11S026N0010''
   \<and> fst (read_serialnr (example_hub (\<lambda>a. ReadRegisters registers_PSE1)) 0x445 True)
      = Some ''SP1ES120N60001''"
proof -
  have h: "fst (read_serialnr (example_hub (\<lambda>a. ReadRegisters registers_PSE1)) 0x445 False)
      = Some ''PSE11S026N0010''"
    using read_serialnr_registers(1) [OF example_hub_read decode_PSE1, of "0x445"] by simp
  from read_serialnr_swapbytes [OF h] h show ?thesis by simp
qed

end
